theory Spec2Isabelle
  imports Complex_Main "HOL-Library.Word"
begin

section \<open>Python values, exceptions and the libraries the module calls\<close>

text \<open>
  The module \<^verbatim>\<open>bindsnet/preprocessing/__init__.py\<close> is embedded function by function.
  An exception is the left summand of a result; a Python \<^verbatim>\<open>float\<close> is read as a real
  number (rounding of the machine format is not modelled), a Python \<^verbatim>\<open>int\<close> as \<open>int\<close>.
\<close>

datatype error =
    FileNotFoundError | UnpicklingError | KeyError | TypeError | ValueError
  | IndexError | ZeroDivisionError | RuntimeError | OSError

text \<open>
  The functions of \<^verbatim>\<open>hashlib\<close>, \<^verbatim>\<open>random\<close>, \<^verbatim>\<open>pyproj\<close> and \<^verbatim>\<open>numpy\<close> that the module
  calls are parameters of the model, collected in one record. \<open>'st\<close> is the state of the
  module-level generator of \<^verbatim>\<open>random\<close>.
  \<^item> \<open>md5_digest\<close>: the 128-bit digest of a byte string, read as one big-endian number;
  \<^item> \<open>random_seed\<close>: the generator state that \<^verbatim>\<open>seed(k)\<close> installs;
  \<^item> \<open>random_getrandbits\<close>: \<^verbatim>\<open>getrandbits(k)\<close>, the drawn number and the next state;
  \<^item> \<open>random_randint\<close>: the draw of \<^verbatim>\<open>randint(a, b)\<close> on a non-empty range;
  \<^item> \<open>proj_forward\<close>: the projection \<^verbatim>\<open>Proj(init="epsg:3785")\<close>, from (longitude, latitude);
  \<^item> \<open>np_argsort\<close>: \<^verbatim>\<open>np.argsort\<close> with its default sort kind.
\<close>

record 'st env =
  md5_digest :: "string \<Rightarrow> 128 word"
  random_seed :: "nat \<Rightarrow> 'st"
  random_getrandbits :: "nat \<Rightarrow> 'st \<Rightarrow> nat \<times> 'st"
  random_randint :: "int \<Rightarrow> int \<Rightarrow> 'st \<Rightarrow> int \<times> 'st"
  proj_forward :: "real \<Rightarrow> real \<Rightarrow> real \<times> real"
  np_argsort :: "nat list \<Rightarrow> nat list"

text \<open>\<^verbatim>\<open>str(i)\<close> of an integer: decimal digits, with a leading minus sign when negative.\<close>

definition digit_char :: "nat \<Rightarrow> char" where
  "digit_char d = ''0123456789'' ! d"

fun str_nat :: "nat \<Rightarrow> string" where
  "str_nat k = (if k < 10 then [digit_char k] else str_nat (k div 10) @ [digit_char (k mod 10)])"

definition py_str :: "int \<Rightarrow> string" where
  "py_str i = (if i < 0 then CHR ''-'' # str_nat (nat (- i)) else str_nat (nat i))"

text \<open>\<^verbatim>\<open>int(c)\<close> of a one-character string: the digit's value, \<^verbatim>\<open>ValueError\<close> otherwise.\<close>

definition py_int_of_char :: "char \<Rightarrow> error + nat" where
  "py_int_of_char c =
     (let k = of_char c :: nat in if 48 \<le> k \<and> k \<le> 57 then Inr (k - 48) else Inl ValueError)"

text \<open>\<^verbatim>\<open>int(x)\<close> of a float truncates towards zero.\<close>

definition py_int :: "real \<Rightarrow> int" where
  "py_int x = (if 0 \<le> x then \<lfloor>x\<rfloor> else \<lceil>x\<rceil>)"

text \<open>\<^verbatim>\<open>round(x)\<close> of a float rounds to the nearest integer, a tie to the even one.\<close>

definition py_round :: "real \<Rightarrow> int" where
  "py_round x =
     (let f = \<lfloor>x\<rfloor>; d = x - of_int f
      in if d < 1 / 2 then f else if 1 / 2 < d then f + 1 else if even f then f else f + 1)"

text \<open>\<^verbatim>\<open>m.hexdigest()\<close>: the 32 lower-case hexadecimal digits of the digest.\<close>

definition hex_char :: "nat \<Rightarrow> char" where
  "hex_char d = ''0123456789abcdef'' ! d"

definition hexdigest :: "128 word \<Rightarrow> string" where
  "hexdigest x = map (\<lambda>i. hex_char (unat (drop_bit (4 * (31 - i)) x) mod 16)) [0..<32]"

text \<open>
  \<^verbatim>\<open>randint(a, b)\<close> raises \<^verbatim>\<open>ValueError\<close> on an empty range and draws from the generator
  otherwise.
\<close>

definition py_randint :: "'st env \<Rightarrow> int \<Rightarrow> int \<Rightarrow> 'st \<Rightarrow> (error + int) \<times> 'st" where
  "py_randint L a b st =
     (if b < a then (Inl ValueError, st)
      else (case random_randint L a b st of (r, st') \<Rightarrow> (Inr r, st')))"

text \<open>
  A list comprehension or a \<^verbatim>\<open>for\<close> loop whose body may raise: the first exception ends
  the loop. \<open>map_st\<close> threads the generator state through the calls.
\<close>

fun map_err :: "('a \<Rightarrow> error + 'b) \<Rightarrow> 'a list \<Rightarrow> error + 'b list" where
  "map_err f [] = Inr []"
| "map_err f (x # xs) =
     (case f x of
        Inl e \<Rightarrow> Inl e
      | Inr y \<Rightarrow> (case map_err f xs of Inl e \<Rightarrow> Inl e | Inr ys \<Rightarrow> Inr (y # ys)))"

fun map_st :: "('a \<Rightarrow> 'st \<Rightarrow> (error + 'b) \<times> 'st) \<Rightarrow> 'a list \<Rightarrow> 'st \<Rightarrow> (error + 'b list) \<times> 'st" where
  "map_st f [] st = (Inr [], st)"
| "map_st f (x # xs) st =
     (case f x st of
        (Inl e, st1) \<Rightarrow> (Inl e, st1)
      | (Inr y, st1) \<Rightarrow>
          (case map_st f xs st1 of
             (Inl e, st2) \<Rightarrow> (Inl e, st2)
           | (Inr ys, st2) \<Rightarrow> (Inr (y # ys), st2)))"

section \<open>The preprocessors and their configuration\<close>

record numenta =
  self_scale :: int
  self_w :: int
  self_n :: int
  self_timestep :: int

record altgeo =
  self_g_prec :: int
  self_s_prec :: int
  self_s_max :: real

datatype preprocessor = NumentaPreprocessor numenta | AltGeoPreprocessor altgeo

text \<open>\<^verbatim>\<open>self.__class__.__name__\<close>\<close>

fun class_name :: "preprocessor \<Rightarrow> string" where
  "class_name (NumentaPreprocessor c) = ''NumentaPreprocessor''"
| "class_name (AltGeoPreprocessor c) = ''AltGeoPreprocessor''"

section \<open>AbstractPreprocessor: the cache around the encoding pass\<close>

text \<open>
  A batch is the list of the rows' vectors. The values a pickled dictionary can hold are
  \<^verbatim>\<open>None\<close>, a string or a batch.
\<close>

type_synonym batch = "nat list list"

datatype pyval = PyNone | PyStr string | PyTensor batch

datatype pyobj = PyDict "(string \<times> pyval) list" | PyOther

datatype blob = Unpicklable | Pickled pyobj

text \<open>
  An input file: the lines \<^verbatim>\<open>readlines()\<close> gives, and the (speed, latitude, longitude)
  rows \<^verbatim>\<open>pandas.read_csv\<close> parses from them.
\<close>

record csv =
  csv_lines :: "string list"
  csv_rows :: "(real \<times> real \<times> real) list"

text \<open>
  The files the module reads and writes: the input files, the cache files, and the paths
  at which creating the directory or the file fails. \<open>encoder_runs\<close> is a ghost field,
  absent from the source: it counts the invocations of \<^verbatim>\<open>_process\<close>.
\<close>

record world =
  csv_files :: "string \<Rightarrow> csv option"
  blobs :: "string \<Rightarrow> blob option"
  unwritable :: "string \<Rightarrow> bool"
  encoder_runs :: nat

text \<open>The dictionary \<^verbatim>\<open>cache\<close> of \<^verbatim>\<open>process\<close>: it always has exactly these two keys.\<close>

record cache =
  verify :: string
  data :: pyval

definition gen_hash :: "'st env \<Rightarrow> preprocessor \<Rightarrow> string \<Rightarrow> world \<Rightarrow> error + string" where
  "gen_hash L self filename wd =
     (case csv_files wd filename of
        None \<Rightarrow> Inl FileNotFoundError
      | Some f \<Rightarrow>
          (let pre = concat (csv_lines f) @ class_name self
           in Inr (hexdigest (md5_digest L pre))))"

text \<open>\<^verbatim>\<open>pickle.load\<close> of the opened file, and \<^verbatim>\<open>temp[key]\<close> of what it returned.\<close>

definition pickle_load :: "world \<Rightarrow> string \<Rightarrow> error + pyobj" where
  "pickle_load wd cachedfile =
     (case blobs wd cachedfile of
        None \<Rightarrow> Inl FileNotFoundError
      | Some Unpicklable \<Rightarrow> Inl UnpicklingError
      | Some (Pickled obj) \<Rightarrow> Inr obj)"

fun py_getitem :: "pyobj \<Rightarrow> string \<Rightarrow> error + pyval" where
  "py_getitem (PyDict kvs) k = (case map_of kvs k of None \<Rightarrow> Inl KeyError | Some v \<Rightarrow> Inr v)"
| "py_getitem PyOther k = Inl TypeError"

definition check_file :: "string \<Rightarrow> cache \<Rightarrow> world \<Rightarrow> error + (bool \<times> cache)" where
  "check_file cachedfile c wd =
     (case (case pickle_load wd cachedfile of
              Inl e \<Rightarrow>
                if e = FileNotFoundError
                then Inr (PyDict [(''verify'', PyStr ''''), (''data'', PyNone)])
                else Inl e
            | Inr obj \<Rightarrow> Inr obj) of
        Inl e \<Rightarrow> Inl e
      | Inr temp \<Rightarrow>
          (case py_getitem temp ''verify'' of
             Inl e \<Rightarrow> Inl e
           | Inr v \<Rightarrow>
               if PyStr (verify c) = v
               then (case py_getitem temp ''data'' of
                       Inl e \<Rightarrow> Inl e
                     | Inr d \<Rightarrow> Inr (True, c\<lparr>data := d\<rparr>))
               else Inr (False, c)))"

definition save :: "string \<Rightarrow> cache \<Rightarrow> world \<Rightarrow> error + world" where
  "save filename c wd =
     (if unwritable wd filename then Inl OSError
      else Inr (wd\<lparr>blobs := (blobs wd)
                  (filename \<mapsto> Pickled (PyDict [(''verify'', PyStr (verify c)), (''data'', data c)]))\<rparr>))"

text \<open>
  \<open>process\<close> takes the hook \<^verbatim>\<open>_process\<close> as a parameter: from the file name and the files
  it gives the value it stores under \<^verbatim>\<open>cache['data']\<close>, or raises.
\<close>

definition process ::
  "'st env \<Rightarrow> (string \<Rightarrow> world \<Rightarrow> error + pyval) \<Rightarrow> preprocessor \<Rightarrow>
   string \<Rightarrow> bool \<Rightarrow> string \<Rightarrow> world \<Rightarrow> (error + pyval) \<times> world" where
  "process L hook self csvfile use_cache cachedfile wd =
     (let c = \<lparr>verify = '''', data = PyNone\<rparr>
      in case (if use_cache
               then (case gen_hash L self csvfile wd of
                       Inl e \<Rightarrow> Inl e
                     | Inr h \<Rightarrow> check_file cachedfile (c\<lparr>verify := h\<rparr>) wd)
               else Inr (False, c)) of
           Inl e \<Rightarrow> (Inl e, wd)
         | Inr (True, c1) \<Rightarrow> (Inr (data c1), wd)
         | Inr (False, c1) \<Rightarrow>
             (let wd1 = wd\<lparr>encoder_runs := Suc (encoder_runs wd)\<rparr>
              in case hook csvfile wd of
                   Inl e \<Rightarrow> (Inl e, wd1)
                 | Inr d \<Rightarrow>
                     (let c2 = c1\<lparr>data := d\<rparr>
                      in if use_cache
                         then (case save cachedfile c2 wd1 of
                                 Inl e \<Rightarrow> (Inl e, wd1)
                               | Inr wd2 \<Rightarrow> (Inr (data c2), wd2))
                         else (Inr (data c2), wd1))))"

section \<open>NumentaPreprocessor: the spatial encoder\<close>

text \<open>
  \<^verbatim>\<open>int(m.hexdigest(), 16)\<close> reads the hexadecimal digits back: it is the digest as a number.
  The coordinates are the integers of a grid cell, as \<^verbatim>\<open>__select\<close> and
  \<^verbatim>\<open>__generate_vector\<close> pass them.
\<close>

definition hash_coordinate :: "'st env \<Rightarrow> int \<Rightarrow> int \<Rightarrow> nat" where
  "hash_coordinate L latitude longitude =
     (let coordinate_str = py_str latitude @ '','' @ py_str longitude
      in unat (md5_digest L coordinate_str) mod 2 ^ 64)"

text \<open>\<^verbatim>\<open>seed(...)\<close> replaces the state of the module-level generator, whatever it was.\<close>

definition coordinate_order :: "'st env \<Rightarrow> int \<Rightarrow> int \<Rightarrow> 'st \<Rightarrow> nat \<times> 'st" where
  "coordinate_order L latitude longitude st =
     (let st1 = random_seed L (hash_coordinate L latitude longitude)
      in random_getrandbits L 64 st1)"

definition coordinate_bit :: "'st env \<Rightarrow> numenta \<Rightarrow> int \<Rightarrow> int \<Rightarrow> 'st \<Rightarrow> (error + int) \<times> 'st" where
  "coordinate_bit L self latitude longitude st =
     (let st1 = random_seed L (hash_coordinate L latitude longitude)
      in py_randint L 0 (self_n self - 1) st1)"

definition map_transform :: "'st env \<Rightarrow> numenta \<Rightarrow> real \<Rightarrow> real \<Rightarrow> error + int \<times> int" where
  "map_transform L self latitude longitude =
     (case proj_forward L longitude latitude of
        (longitude1, latitude1) \<Rightarrow>
          if self_scale self = 0 then Inl ZeroDivisionError
          else Inr (py_int (latitude1 / of_int (self_scale self)),
                    py_int (longitude1 / of_int (self_scale self))))"

text \<open>
  \<^verbatim>\<open>speed * self.timestep / self.scale\<close> raises on a zero scale, \<^verbatim>\<open>math.sqrt(self.w)\<close> on a
  negative \<^verbatim>\<open>w\<close>; the division comes first.
\<close>

definition min_radius :: "int \<Rightarrow> int" where
  "min_radius w = \<lceil>(sqrt (of_int w) - 1) / 2\<rceil>"

definition radius :: "numenta \<Rightarrow> real \<Rightarrow> error + int" where
  "radius self speed =
     (let overlap = 3 / 2
      in if self_scale self = 0 then Inl ZeroDivisionError
         else (let coordinates = speed * of_int (self_timestep self) / of_int (self_scale self);
                   r = py_round (coordinates / 2 * overlap)
               in if self_w self < 0 then Inl ValueError
                  else Inr (max r (min_radius (self_w self)))))"

text \<open>\<^verbatim>\<open>itertools.product\<close> of the two ranges: the rightmost range advances fastest.\<close>

definition neighbors :: "int \<Rightarrow> int \<Rightarrow> int \<Rightarrow> (int \<times> int) list" where
  "neighbors latitude longitude r =
     List.product [latitude - r..latitude + r] [longitude - r..longitude + r]"

text \<open>The slice \<^verbatim>\<open>xs[-w:]\<close>, and the indexing \<^verbatim>\<open>neighbors[indices]\<close> by an index array.\<close>

definition py_last_slice :: "int \<Rightarrow> 'a list \<Rightarrow> 'a list" where
  "py_last_slice w xs = (if w \<le> 0 then drop (nat (- w)) xs else drop (length xs - nat w) xs)"

definition take_rows :: "'a list \<Rightarrow> nat list \<Rightarrow> error + 'a list" where
  "take_rows xs indices = map_err (\<lambda>i. if i < length xs then Inr (xs ! i) else Inl IndexError) indices"

fun map_state :: "('a \<Rightarrow> 'st \<Rightarrow> 'b \<times> 'st) \<Rightarrow> 'a list \<Rightarrow> 'st \<Rightarrow> 'b list \<times> 'st" where
  "map_state f [] st = ([], st)"
| "map_state f (x # xs) st =
     (case f x st of (y, st1) \<Rightarrow> (case map_state f xs st1 of (ys, st2) \<Rightarrow> (y # ys, st2)))"

definition select ::
  "'st env \<Rightarrow> numenta \<Rightarrow> (int \<times> int) list \<Rightarrow> 'st \<Rightarrow> (error + (int \<times> int) list) \<times> 'st" where
  "select L self nbs st =
     (case map_state (\<lambda>c. coordinate_order L (fst c) (snd c)) nbs st of
        (orders, st1) \<Rightarrow>
          (let indices = py_last_slice (self_w self) (np_argsort L orders)
           in (take_rows nbs indices, st1)))"

text \<open>
  \<^verbatim>\<open>output[indices] = 1\<close>: an index below zero counts from the end, one outside the vector
  raises.
\<close>

fun index_put :: "nat list \<Rightarrow> int list \<Rightarrow> error + nat list" where
  "index_put out [] = Inr out"
| "index_put out (i # js) =
     (let len = int (length out)
      in if 0 \<le> i \<and> i < len then index_put (out[nat i := 1]) js
         else if - len \<le> i \<and> i < 0 then index_put (out[nat (len + i) := 1]) js
         else Inl IndexError)"

definition generate_vector ::
  "'st env \<Rightarrow> numenta \<Rightarrow> real \<times> real \<times> real \<Rightarrow> nat list \<Rightarrow> 'st \<Rightarrow> (error + nat list) \<times> 'st" where
  "generate_vector L self data_point output st =
     (case data_point of
        (speed, latitude, longitude) \<Rightarrow>
          (case map_transform L self latitude longitude of
             Inl e \<Rightarrow> (Inl e, st)
           | Inr (lat, lon) \<Rightarrow>
               (case radius self speed of
                  Inl e \<Rightarrow> (Inl e, st)
                | Inr r \<Rightarrow>
                    (case select L self (neighbors lat lon r) st of
                       (Inl e, st1) \<Rightarrow> (Inl e, st1)
                     | (Inr top_w, st1) \<Rightarrow>
                         (case map_st (\<lambda>c. coordinate_bit L self (fst c) (snd c)) top_w st1 of
                            (Inl e, st2) \<Rightarrow> (Inl e, st2)
                          | (Inr indices, st2) \<Rightarrow>
                              (index_put (map (\<lambda>x. 0) output) indices, st2))))))"

text \<open>
  The body of the loop of \<^verbatim>\<open>_process\<close>: \<^verbatim>\<open>torch.zeros(self.n)\<close> raises on a negative
  size. The loop appends one vector per row, in the rows' order.
\<close>

definition Numenta_row ::
  "'st env \<Rightarrow> numenta \<Rightarrow> real \<times> real \<times> real \<Rightarrow> 'st \<Rightarrow> (error + nat list) \<times> 'st" where
  "Numenta_row L self row st =
     (if self_n self < 0 then (Inl RuntimeError, st)
      else generate_vector L self row (replicate (nat (self_n self)) 0) st)"

definition Numenta_process ::
  "'st env \<Rightarrow> numenta \<Rightarrow> (real \<times> real \<times> real) list \<Rightarrow> 'st \<Rightarrow> (error + batch) \<times> 'st" where
  "Numenta_process L self rows st = map_st (Numenta_row L self) rows st"

section \<open>AltGeoPreprocessor: the digit encoder\<close>

fun encode :: "string \<Rightarrow> nat \<Rightarrow> nat list list \<Rightarrow> error + nat list list" where
  "encode [] j mat = Inr mat"
| "encode (i # num_str) j mat =
     (if length mat \<le> j then Inl IndexError
      else (case py_int_of_char i of
              Inl e \<Rightarrow> Inl e
            | Inr d \<Rightarrow>
                if length (mat ! j) \<le> d then Inl IndexError
                else encode num_str (j + 1) (mat[j := (mat ! j)[d := 1]])))"

definition gconst :: "altgeo \<Rightarrow> real" where
  "gconst self = 10 powi self_g_prec self"

definition sconst :: "altgeo \<Rightarrow> real" where
  "sconst self = 10 powi self_s_prec self"

definition gdigits :: "altgeo \<Rightarrow> nat" where
  "gdigits self = length (py_str (py_int (360 * gconst self)))"

definition sdigits :: "altgeo \<Rightarrow> nat" where
  "sdigits self = length (py_str (py_int (self_s_max self * sconst self)))"

text \<open>The three digit strings of a row, and the body of the loop of \<^verbatim>\<open>_process\<close>.\<close>

definition latitude_str :: "altgeo \<Rightarrow> real \<times> real \<times> real \<Rightarrow> string" where
  "latitude_str self row = (case row of (speed, latitude, longitude) \<Rightarrow>
     py_str \<lfloor>(latitude + 90) * gconst self\<rfloor>)"

definition longitude_str :: "altgeo \<Rightarrow> real \<times> real \<times> real \<Rightarrow> string" where
  "longitude_str self row = (case row of (speed, latitude, longitude) \<Rightarrow>
     py_str \<lfloor>(longitude + 180) * gconst self\<rfloor>)"

definition speed_str :: "altgeo \<Rightarrow> real \<times> real \<times> real \<Rightarrow> string" where
  "speed_str self row = (case row of (speed, latitude, longitude) \<Rightarrow>
     py_str \<lfloor>speed * sconst self\<rfloor>)"

definition AltGeo_row :: "altgeo \<Rightarrow> real \<times> real \<times> real \<Rightarrow> error + nat list" where
  "AltGeo_row self row =
     (let lat = replicate (gdigits self) (replicate 10 0);
          long = replicate (gdigits self) (replicate 10 0);
          spd = replicate (sdigits self) (replicate 10 0)
      in case encode (latitude_str self row) 0 lat of
           Inl e \<Rightarrow> Inl e
         | Inr lat1 \<Rightarrow>
             (case encode (longitude_str self row) 0 long of
                Inl e \<Rightarrow> Inl e
              | Inr long1 \<Rightarrow>
                  (case encode (speed_str self row) 0 spd of
                     Inl e \<Rightarrow> Inl e
                   | Inr spd1 \<Rightarrow> Inr (concat lat1 @ concat long1 @ concat spd1))))"


section \<open>The two encoders as hooks of the cache\<close>

text \<open>
  \<^verbatim>\<open>pd.read_csv\<close> raises when the input file is absent. The spatial encoder starts in the
  generator state \<open>st\<close> the process has at that moment.
\<close>

definition tensor_of :: "error + batch \<Rightarrow> error + pyval" where
  "tensor_of r = (case r of Inl e \<Rightarrow> Inl e | Inr vs \<Rightarrow> Inr (PyTensor vs))"

definition Numenta_hook :: "'st env \<Rightarrow> numenta \<Rightarrow> 'st \<Rightarrow> string \<Rightarrow> world \<Rightarrow> error + pyval" where
  "Numenta_hook L self st filename wd =
     (case csv_files wd filename of
        None \<Rightarrow> Inl FileNotFoundError
      | Some f \<Rightarrow> tensor_of (fst (Numenta_process L self (csv_rows f) st)))"


section \<open>What the libraries promise, and the notions the properties use\<close>


definition argsort_ok :: "'st env \<Rightarrow> bool" where
  "argsort_ok L =
     (\<forall>xs. distinct (np_argsort L xs) \<and> set (np_argsort L xs) = {0..<length xs} \<and>
        sorted (map (\<lambda>i. xs ! i) (np_argsort L xs)))"

definition argsort_stable :: "'st env \<Rightarrow> bool" where
  "argsort_stable L = (\<forall>xs. np_argsort L xs = sort_key (\<lambda>i. xs ! i) [0..<length xs])"

text \<open>The order value of a cell: what \<open>coordinate_order\<close> returns for it, in any state.\<close>

definition order_value :: "'st env \<Rightarrow> int \<times> int \<Rightarrow> nat" where
  "order_value L c = fst (coordinate_order L (fst c) (snd c) (random_seed L 0))"

text \<open>The number of set bits of a vector, and its \<open>b\<close>-th block of ten positions.\<close>

definition set_bits :: "nat list \<Rightarrow> nat" where
  "set_bits v = count_list v 1"

definition block :: "nat list \<Rightarrow> nat \<Rightarrow> nat list" where
  "block v b = take 10 (drop (10 * b) v)"

text \<open>A digit string fits a matrix of \<open>k\<close> rows: decimal digits only, at most \<open>k\<close> of them.\<close>

definition is_digit :: "char \<Rightarrow> bool" where
  "is_digit c = (48 \<le> (of_char c :: nat) \<and> (of_char c :: nat) \<le> 57)"

definition fits :: "nat \<Rightarrow> string \<Rightarrow> bool" where
  "fits k s = (length s \<le> k \<and> list_all is_digit s)"

text \<open>
  The rows a digit string leaves in a zero matrix of \<open>k\<close> rows: row \<open>i\<close> has its one set bit
  at the \<open>i\<close>-th digit, and the rows after the last digit stay zero.
\<close>

definition one_hot_rows :: "string \<Rightarrow> nat \<Rightarrow> nat list list" where
  "one_hot_rows s k =
     map (\<lambda>i. if i < length s then (replicate 10 0)[of_char (s ! i) - 48 := 1] else replicate 10 0)
       [0..<k]"

text \<open>Block \<open>b\<close> of a row's vector lies under a digit of the field it belongs to.\<close>

definition filled :: "altgeo \<Rightarrow> real \<times> real \<times> real \<Rightarrow> nat \<Rightarrow> bool" where
  "filled self row b =
     (if b < gdigits self then b < length (latitude_str self row)
      else if b < 2 * gdigits self then b - gdigits self < length (longitude_str self row)
      else b - 2 * gdigits self < length (speed_str self row))"

section \<open>An instance of the library parameters\<close>

text \<open>
  The closed statements below evaluate the model on concrete inputs; for that the library
  parameters need values. Those of \<open>sample_env\<close> are small functions of the right types:
  a polynomial checksum for the digest, a counter for the generator, a linear map for the
  projection, and the stable insertion sort of the indices for \<^verbatim>\<open>argsort\<close>. No general
  theorem depends on them.
\<close>

definition sample_argsort :: "nat list \<Rightarrow> nat list" where
  "sample_argsort xs = sort_key (\<lambda>i. xs ! i) [0..<length xs]"

definition sample_env :: "nat env" where
  "sample_env =
     \<lparr>md5_digest = (\<lambda>s. word_of_nat (foldl (\<lambda>h c. 31 * h + of_char c) 7 s)),
      random_seed = (\<lambda>k. k),
      random_getrandbits = (\<lambda>k st. ((st * 25214903917 + 11) mod 2 ^ k, Suc st)),
      random_randint = (\<lambda>a b st. (a + int st mod (b - a + 1), Suc st)),
      proj_forward = (\<lambda>lon lat. (lon * 100000, lat * 100000)),
      np_argsort = sample_argsort\<rparr>"

text \<open>
  A second instance, for the order of ties. Its \<^verbatim>\<open>argsort\<close> sorts as the contract asks but
  puts equal elements in the reverse of their order, and its generator draws the same
  number for every seed, so that all order values tie.
\<close>

definition reverse_ties_argsort :: "nat list \<Rightarrow> nat list" where
  "reverse_ties_argsort xs = rev (sort_key (\<lambda>i. - int (xs ! i)) [0..<length xs])"

definition tied_env :: "nat env" where
  "tied_env = sample_env\<lparr>random_getrandbits := (\<lambda>k st. (0, Suc st)),
                         np_argsort := reverse_ties_argsort\<rparr>"


definition altgeo_default :: altgeo where
  "altgeo_default = \<lparr>self_g_prec = 6, self_s_prec = 1, self_s_max = 140\<rparr>"






section \<open>The cache: hash, hit and miss\<close>












lemma process_no_cache:
  "process L hook self csvfile False cachedfile wd =
     (case hook csvfile wd of
        Inl e \<Rightarrow> (Inl e, wd\<lparr>encoder_runs := Suc (encoder_runs wd)\<rparr>)
      | Inr d \<Rightarrow> (Inr d, wd\<lparr>encoder_runs := Suc (encoder_runs wd)\<rparr>))"
  by (simp add: process_def Let_def split: sum.splits)

section \<open>The digit encoder: what \<open>encode\<close> leaves in the matrix\<close>

lemma py_int_of_char_digit: "is_digit c \<Longrightarrow> py_int_of_char c = Inr (of_char c - 48)"
  by (simp add: py_int_of_char_def is_digit_def Let_def)

lemma py_int_of_char_other: "\<not> is_digit c \<Longrightarrow> py_int_of_char c = Inl ValueError"
  by (auto simp: py_int_of_char_def is_digit_def Let_def)

lemma digit_lt_10: "is_digit c \<Longrightarrow> (of_char c :: nat) - 48 < 10"
  by (auto simp: is_digit_def)

lemma encode_rows:
  assumes "list_all is_digit s" and "j + length s \<le> length mat" and "\<forall>r\<in>set mat. length r = 10"
  shows "encode s j mat =
     Inr (map (\<lambda>i. if j \<le> i \<and> i < j + length s
                    then (mat ! i)[of_char (s ! (i - j)) - 48 := 1] else mat ! i) [0..<length mat])"
  using assms
proof (induction s arbitrary: j mat)
  case Nil
  then show ?case by (auto intro!: nth_equalityI)
next
  case (Cons c cs)
  let ?d = "(of_char c :: nat) - 48"
  let ?mat = "mat[j := (mat ! j)[?d := 1]]"
  from Cons.prems have dig: "is_digit c" and rest: "list_all is_digit cs"
    and j: "j < length mat" and len: "Suc j + length cs \<le> length ?mat" by auto
  from j Cons.prems(3) have rowj: "length (mat ! j) = 10" by auto
  from Cons.prems(3) rowj have rows: "\<forall>r\<in>set ?mat. length r = 10"
    by (auto dest!: set_update_subset_insert [THEN subsetD])
  have step: "encode (c # cs) j mat = encode cs (Suc j) ?mat"
    using dig j rowj digit_lt_10 [OF dig] by (simp add: py_int_of_char_digit)
  have "encode cs (Suc j) ?mat =
     Inr (map (\<lambda>i. if Suc j \<le> i \<and> i < Suc j + length cs
                    then (?mat ! i)[of_char (cs ! (i - Suc j)) - 48 := 1] else ?mat ! i) [0..<length ?mat])"
    by (rule Cons.IH [OF rest len rows])
  also have "map (\<lambda>i. if Suc j \<le> i \<and> i < Suc j + length cs
                    then (?mat ! i)[of_char (cs ! (i - Suc j)) - 48 := 1] else ?mat ! i) [0..<length ?mat]
     = map (\<lambda>i. if j \<le> i \<and> i < j + length (c # cs)
                    then (mat ! i)[of_char ((c # cs) ! (i - j)) - 48 := 1] else mat ! i) [0..<length mat]"
    using j by (auto simp: nth_list_update nth_Cons' intro!: map_cong)
  finally show ?case using step by simp
qed

lemma encode_raises:
  assumes "\<not> (list_all is_digit s \<and> j + length s \<le> length mat)" and "j \<le> length mat"
    and "\<forall>r\<in>set mat. length r = 10"
  shows "isl (encode s j mat)"
  using assms
proof (induction s arbitrary: j mat)
  case Nil
  then show ?case by simp
next
  case (Cons c cs)
  show ?case
  proof (cases "length mat \<le> j")
    case True
    then show ?thesis by simp
  next
    case False
    note j = this
    show ?thesis
    proof (cases "is_digit c")
      case False
      then show ?thesis using j by (simp add: py_int_of_char_other)
    next
      case True
      let ?mat = "mat[j := (mat ! j)[(of_char c :: nat) - 48 := 1]]"
      from j Cons.prems(3) have rowj: "length (mat ! j) = 10" by auto
      have step: "encode (c # cs) j mat = encode cs (Suc j) ?mat"
        using True j rowj digit_lt_10 [OF True] by (simp add: py_int_of_char_digit)
      from Cons.prems True have a: "\<not> (list_all is_digit cs \<and> Suc j + length cs \<le> length ?mat)" by auto
      from j have b: "Suc j \<le> length ?mat" by simp
      from Cons.prems(3) rowj have rows: "\<forall>r\<in>set ?mat. length r = 10"
        by (auto dest!: set_update_subset_insert [THEN subsetD])
      show ?thesis using Cons.IH [OF a b rows] step by simp
    qed
  qed
qed

lemma encode_zero:
  "fits k s \<Longrightarrow> encode s 0 (replicate k (replicate 10 0)) = Inr (one_hot_rows s k)"
  unfolding fits_def one_hot_rows_def
  by (subst encode_rows) (auto intro!: map_cong)

lemma encode_zero_raises:
  "\<not> fits k s \<Longrightarrow> isl (encode s 0 (replicate k (replicate 10 0)))"
  unfolding fits_def by (rule encode_raises) auto

lemma AltGeo_row_fits:
  assumes "fits (gdigits self) (latitude_str self row)"
    and "fits (gdigits self) (longitude_str self row)"
    and "fits (sdigits self) (speed_str self row)"
  shows "AltGeo_row self row =
     Inr (concat (one_hot_rows (latitude_str self row) (gdigits self)
                  @ one_hot_rows (longitude_str self row) (gdigits self)
                  @ one_hot_rows (speed_str self row) (sdigits self)))"
  using assms by (simp add: AltGeo_row_def encode_zero)

lemma AltGeo_row_raises:
  assumes "\<not> (fits (gdigits self) (latitude_str self row)
    \<and> fits (gdigits self) (longitude_str self row)
    \<and> fits (sdigits self) (speed_str self row))"
  shows "isl (AltGeo_row self row)"
proof (cases "fits (gdigits self) (latitude_str self row)")
  case False
  from encode_zero_raises [OF this] show ?thesis
    by (auto simp: AltGeo_row_def isl_def)
next
  case lat: True
  show ?thesis
  proof (cases "fits (gdigits self) (longitude_str self row)")
    case False
    from encode_zero_raises [OF this] show ?thesis
      by (auto simp: AltGeo_row_def encode_zero [OF lat] isl_def)
  next
    case lon: True
    with lat assms have "\<not> fits (sdigits self) (speed_str self row)" by simp
    from encode_zero_raises [OF this] show ?thesis
      by (auto simp: AltGeo_row_def encode_zero [OF lat] encode_zero [OF lon] isl_def)
  qed
qed

lemma length_concat_rows: "\<forall>r\<in>set rows. length r = 10 \<Longrightarrow> length (concat rows) = 10 * length rows"
  by (induction rows) auto

lemma block_concat:
  "\<forall>r\<in>set rows. length r = 10 \<Longrightarrow> b < length rows \<Longrightarrow> block (concat rows) b = rows ! b"
proof (induction rows arbitrary: b)
  case Nil
  then show ?case by simp
next
  case (Cons r rows)
  show ?case
  proof (cases b)
    case 0
    with Cons.prems show ?thesis by (simp add: block_def)
  next
    case (Suc k)
    with Cons.prems have "block (concat rows) k = rows ! k" by (intro Cons.IH) auto
    with Suc Cons.prems show ?thesis by (simp add: block_def)
  qed
qed

lemma count_list_update_one:
  "i < length xs \<Longrightarrow> xs ! i \<noteq> (1::nat) \<Longrightarrow> count_list (xs[i := 1]) 1 = Suc (count_list xs 1)"
proof (induction xs arbitrary: i)
  case Nil
  then show ?case by simp
next
  case (Cons x xs)
  then show ?case by (cases i) auto
qed

lemma count_list_replicate_zero: "count_list (replicate k 0) (1::nat) = 0"
  by (induction k) auto

lemma one_hot_rows_length: "length (one_hot_rows s k) = k"
  by (simp add: one_hot_rows_def)

lemma one_hot_rows_width: "\<forall>r\<in>set (one_hot_rows s k). length r = 10"
  by (auto simp: one_hot_rows_def)

lemma unit_row_bits: "d < 10 \<Longrightarrow> set_bits ((replicate 10 0)[d := 1]) = 1"
  using count_list_update_one [of d "replicate 10 0"] count_list_replicate_zero [of 10]
  by (simp add: set_bits_def)

lemma zero_row_bits: "set_bits (replicate 10 0) = 0"
  using count_list_replicate_zero [of 10] by (simp add: set_bits_def)

lemma one_hot_rows_bits:
  assumes "list_all is_digit s" and "i < k"
  shows "set_bits (one_hot_rows s k ! i) = (if i < length s then 1 else 0)"
proof (cases "i < length s")
  case True
  with assms have "is_digit (s ! i)" by (simp add: list_all_length)
  then have "(of_char (s ! i) :: nat) - 48 < 10" by (rule digit_lt_10)
  then have "set_bits ((replicate 10 0)[of_char (s ! i) - 48 := 1]) = 1" by (rule unit_row_bits)
  then show ?thesis using True assms(2)
    by (simp add: one_hot_rows_def)
next
  case False
  then show ?thesis using assms(2) zero_row_bits
    by (simp add: one_hot_rows_def)
qed

lemma AltGeo_row_blocks:
  assumes "AltGeo_row self row = Inr v"
  shows "length v = 2 * gdigits self * 10 + sdigits self * 10
    \<and> (\<forall>b < 2 * gdigits self + sdigits self.
          set_bits (block v b) = (if filled self row b then 1 else 0))"
proof -
  let ?lat = "latitude_str self row" and ?lon = "longitude_str self row"
    and ?spd = "speed_str self row" and ?g = "gdigits self" and ?s = "sdigits self"
  let ?rows = "one_hot_rows ?lat ?g @ one_hot_rows ?lon ?g @ one_hot_rows ?spd ?s"
  have fit: "fits ?g ?lat \<and> fits ?g ?lon \<and> fits ?s ?spd"
    using assms AltGeo_row_raises [of self row] by auto
  with assms have v: "v = concat ?rows" by (simp add: AltGeo_row_fits)
  have width: "\<forall>r\<in>set ?rows. length r = 10" using one_hot_rows_width by auto
  have len: "length ?rows = 2 * ?g + ?s" by (simp add: one_hot_rows_length)
  have "length v = 2 * ?g * 10 + ?s * 10"
    unfolding v length_concat_rows [OF width] len by simp
  moreover have "set_bits (block v b) = (if filled self row b then 1 else 0)"
    if b: "b < 2 * ?g + ?s" for b
  proof -
    from b have "block v b = ?rows ! b" unfolding v by (intro block_concat [OF width]) (simp add: one_hot_rows_length)
    also have "set_bits (?rows ! b) = (if filled self row b then 1 else 0)"
      using b fit
      by (auto simp: nth_append one_hot_rows_length one_hot_rows_bits filled_def fits_def)
    finally show ?thesis .
  qed
  ultimately show ?thesis by blast
qed

text \<open>The spec's scenario record under the default configuration.\<close>

lemma default_digits: "gdigits altgeo_default = 9" "sdigits altgeo_default = 4"
  by (simp_all add: gdigits_def sdigits_def gconst_def sconst_def altgeo_default_def
        py_int_def py_str_def digit_char_def)

lemma sample_strs:
  "latitude_str altgeo_default (0, 40, -73) = ''130000000''"
  "longitude_str altgeo_default (0, 40, -73) = ''107000000''"
  "speed_str altgeo_default (0, 40, -73) = ''0''"
  by (simp_all add: latitude_str_def longitude_str_def speed_str_def gconst_def sconst_def
        altgeo_default_def py_str_def digit_char_def)

lemma sample_fits:
  "fits 9 ''130000000''" "fits 9 ''107000000''" "fits 4 ''0''"
  by (simp_all add: fits_def is_digit_def)

lemma sample_row_returns: "\<exists>v. AltGeo_row altgeo_default (0, 40, -73) = Inr v"
  using AltGeo_row_fits [of altgeo_default "(0, 40, -73)"]
  by (simp add: default_digits sample_strs sample_fits)

section \<open>Loops over the rows, and an encoding pass that raises\<close>

lemma map_err_Inr_iff:
  "map_err f xs = Inr ys \<longleftrightarrow> length ys = length xs \<and> (\<forall>i<length xs. f (xs ! i) = Inr (ys ! i))"
proof (induction xs arbitrary: ys)
  case Nil
  then show ?case by auto
next
  case (Cons x xs)
  show ?case
  proof (cases ys)
    case Nil
    then show ?thesis by (auto split: sum.splits)
  next
    case (Cons y ys')
    then show ?thesis
      using Cons.IH [of ys'] by (auto simp: nth_Cons' less_Suc_eq_0_disj split: sum.splits)
  qed
qed


lemma map_st_pure:
  assumes "\<And>x st. fst (f x st) = g x"
  shows "fst (map_st f xs st) = map_err g xs"
proof (induction xs arbitrary: st)
  case Nil
  then show ?case by simp
next
  case (Cons x xs)
  obtain r st1 where fx: "f x st = (r, st1)" by (cases "f x st")
  with assms [of x st] have r: "g x = r" by simp
  show ?case
  proof (cases r)
    case (Inl e)
    with fx r show ?thesis by simp
  next
    case (Inr y)
    obtain rs st2 where m: "map_st f xs st1 = (rs, st2)" by (cases "map_st f xs st1")
    with Cons.IH [of st1] have "map_err g xs = rs" by simp
    with fx r Inr m show ?thesis by (cases rs) auto
  qed
qed



section \<open>The verify hash\<close>












section \<open>The cache protocol\<close>



section \<open>A cache file that is absent or cannot be read\<close>






section \<open>The digit encoder: blocks, and strings that do not fit\<close>

text \<open>
  Claim C4, as amended. When the digit encoder returns a vector for a record, the vector
  has length \<open>2 * gdigits * 10 + sdigits * 10\<close>, and a block of ten positions has exactly
  one set bit when it lies under a digit of its field's string and no set bit otherwise:
  the digit strings are written from the first block of their field on and are not padded,
  so the blocks after a short string stay zero.
\<close>

theorem C4_digit_blocks:
  assumes "AltGeo_row self row = Inr v"
  shows "length v = 2 * gdigits self * 10 + sdigits self * 10
    \<and> (\<forall>b < 2 * gdigits self + sdigits self.
          set_bits (block v b) = (if filled self row b then 1 else 0))"
  using assms by (rule AltGeo_row_blocks)

theorem C4_digit_blocks_witness:
  "(case AltGeo_row altgeo_default (0, 40, -73) of
      Inl e \<Rightarrow> False
    | Inr v \<Rightarrow> length v = 220 \<and> set_bits (block v 0) = 1 \<and> set_bits (block v 17) = 1
        \<and> set_bits (block v 18) = 1 \<and> set_bits (block v 21) = 0)"
proof -
  from sample_row_returns obtain v where v: "AltGeo_row altgeo_default (0, 40, -73) = Inr v" ..
  from C4_digit_blocks [OF v] have len: "length v = 220"
    and bits: "\<And>b. b < 22 \<Longrightarrow> set_bits (block v b) = (if filled altgeo_default (0, 40, -73) b then 1 else 0)"
    by (simp_all add: default_digits)
  from bits [of 0] bits [of 17] bits [of 18] bits [of 21] len show ?thesis
    by (simp add: v filled_def default_digits sample_strs)
qed

text \<open>
  Claim C4 fails as stated: for the record (speed 0, latitude 40, longitude -73) and the
  default configuration the speed string is \<open>''0''\<close>, one digit for four blocks. The vector
  has the stated length 220, block 18 (the first speed block) has its one set bit, and
  block 19 has none.
\<close>

theorem C4_short_string_leaves_empty_block:
  "(case AltGeo_row altgeo_default (0, 40, -73) of
      Inl e \<Rightarrow> False
    | Inr v \<Rightarrow> length v = 220 \<and> set_bits (block v 18) = 1 \<and> set_bits (block v 19) = 0)"
proof -
  from sample_row_returns obtain v where v: "AltGeo_row altgeo_default (0, 40, -73) = Inr v" ..
  from AltGeo_row_blocks [OF v] have len: "length v = 220"
    and bits: "\<And>b. b < 22 \<Longrightarrow> set_bits (block v b) = (if filled altgeo_default (0, 40, -73) b then 1 else 0)"
    by (simp_all add: default_digits)
  from bits [of 18] bits [of 19] len show ?thesis
    by (simp add: v filled_def default_digits sample_strs)
qed







section \<open>The seeded draws\<close>






section \<open>The radius\<close>



















end
